theory Spec2Isabelle
  imports Main "HOL-Library.Word"
begin

section \<open>Python values, classes and exceptions\<close>

text \<open>
  The tools of \<^verbatim>\<open>src/bq_agent/agent.py\<close> pass scalar values between the caller and the
  warehouse client. A value is modelled together with its runtime class, because the
  code dispatches on \<^verbatim>\<open>isinstance\<close>. The payloads of the library classes
  (\<^verbatim>\<open>datetime.date\<close>, \<^verbatim>\<open>datetime.datetime\<close>, \<^verbatim>\<open>datetime.time\<close>, \<^verbatim>\<open>Decimal\<close>) are plain
  records; the code never inspects them, it only hands them to the library.
  A \<^verbatim>\<open>str\<close> is a \<^typ>\<open>string\<close> whose characters are code points below 256.
\<close>

record py_date =
  year :: nat
  month :: nat
  day :: nat

record py_time =
  hour :: nat
  minute :: nat
  second :: nat
  microsecond :: nat

record py_datetime =
  dt_date :: py_date
  dt_time :: py_time
  utcoffset :: "int option"

record py_decimal =
  negative :: bool
  coefficient :: nat
  exponent :: int

datatype pyval =
    VNone
  | VStr string
  | VBytes string
  | VInt int
  | VFloat "64 word"
  | VBool bool
  | VDatetime py_datetime
  | VDate py_date
  | VTime py_time
  | VDecimal py_decimal
  | VList "pyval list"
  | VDict "(string \<times> pyval) list"

datatype pyclass =
    C_NoneType | C_str | C_bytes | C_int | C_float | C_bool
  | C_datetime | C_date | C_time | C_Decimal | C_list | C_dict

text \<open>\<^verbatim>\<open>type(val)\<close>.\<close>

fun type_of :: "pyval \<Rightarrow> pyclass" where
  "type_of VNone = C_NoneType"
| "type_of (VStr _) = C_str"
| "type_of (VBytes _) = C_bytes"
| "type_of (VInt _) = C_int"
| "type_of (VFloat _) = C_float"
| "type_of (VBool _) = C_bool"
| "type_of (VDatetime _) = C_datetime"
| "type_of (VDate _) = C_date"
| "type_of (VTime _) = C_time"
| "type_of (VDecimal _) = C_Decimal"
| "type_of (VList _) = C_list"
| "type_of (VDict _) = C_dict"

text \<open>\<^verbatim>\<open>type(val).__name__\<close>.\<close>

fun class_name :: "pyclass \<Rightarrow> string" where
  "class_name C_NoneType = ''NoneType''"
| "class_name C_str = ''str''"
| "class_name C_bytes = ''bytes''"
| "class_name C_int = ''int''"
| "class_name C_float = ''float''"
| "class_name C_bool = ''bool''"
| "class_name C_datetime = ''datetime''"
| "class_name C_date = ''date''"
| "class_name C_time = ''time''"
| "class_name C_Decimal = ''Decimal''"
| "class_name C_list = ''list''"
| "class_name C_dict = ''dict''"

text \<open>
  The subclass relation of these built-in classes: every class is a subclass of itself,
  \<^verbatim>\<open>bool\<close> is a subclass of \<^verbatim>\<open>int\<close>, and \<^verbatim>\<open>datetime.datetime\<close> is a subclass of
  \<^verbatim>\<open>datetime.date\<close>.
\<close>

definition issubclass :: "pyclass \<Rightarrow> pyclass \<Rightarrow> bool" where
  "issubclass c d \<longleftrightarrow> c = d \<or> (c = C_bool \<and> d = C_int) \<or> (c = C_datetime \<and> d = C_date)"

definition isinstance :: "pyval \<Rightarrow> pyclass \<Rightarrow> bool" where
  "isinstance v c \<longleftrightarrow> issubclass (type_of v) c"

text \<open>
  An exception is its class and the text \<^verbatim>\<open>str(e)\<close>. \<^verbatim>\<open>KeyboardInterrupt\<close> and
  \<^verbatim>\<open>SystemExit\<close> derive from \<^verbatim>\<open>BaseException\<close> only; the others derive from
  \<^verbatim>\<open>Exception\<close>, which is what the handlers of the module name.
\<close>

datatype exn_class =
    TypeError | ValueError | GoogleAPIError | DefaultCredentialsError
  | KeyboardInterrupt | SystemExit

datatype pyexn = PyExn (exn_cls: exn_class) (exn_str: string)

fun is_Exception :: "exn_class \<Rightarrow> bool" where
  "is_Exception KeyboardInterrupt = False"
| "is_Exception SystemExit = False"
| "is_Exception _ = True"

section \<open>String helpers\<close>

text \<open>\<^verbatim>\<open>sep.join(xs)\<close>.\<close>

fun join :: "string \<Rightarrow> string list \<Rightarrow> string" where
  "join sep [] = []"
| "join sep [x] = x"
| "join sep (x # y # ys) = x @ sep @ join sep (y # ys)"

text \<open>The decimal text of a natural number, as an f-string prints an index or a length.\<close>

fun str_nat :: "nat \<Rightarrow> string" where
  "str_nat n =
     (if n < 10 then [''0123456789'' ! n]
      else str_nat (n div 10) @ [''0123456789'' ! (n mod 10)])"

declare str_nat.simps [simp del]

text \<open>\<^verbatim>\<open>str\<close> of an attribute that is an integer or \<^verbatim>\<open>None\<close>.\<close>

definition str_opt_int :: "int option \<Rightarrow> string" where
  "str_opt_int x =
     (case x of
        None \<Rightarrow> ''None''
      | Some i \<Rightarrow> if i < 0 then ''-'' @ str_nat (nat (- i)) else str_nat (nat i))"

text \<open>
  \<^verbatim>\<open>str.isspace\<close> on one character, for code points below 256: the ASCII controls
  9 to 13 and 28 to 31, the space, NEL (133) and the no-break space (160).
\<close>

definition py_isspace :: "char \<Rightarrow> bool" where
  "py_isspace c \<longleftrightarrow>
     (let n = (of_char c :: nat)
      in (9 \<le> n \<and> n \<le> 13) \<or> (28 \<le> n \<and> n \<le> 32) \<or> n = 133 \<or> n = 160)"

text \<open>\<^verbatim>\<open>s.strip()\<close>: whitespace removed at both ends.\<close>

definition strip :: "string \<Rightarrow> string" where
  "strip s = rev (dropWhile py_isspace (rev (dropWhile py_isspace s)))"

section \<open>Module configuration\<close>

text \<open>
  Lines 12 to 21 of the module. \<^verbatim>\<open>load_dotenv()\<close> is a library call that may add
  variables to the process environment; it is a parameter. \<^verbatim>\<open>os.getenv\<close> then reads
  the two identifiers, and the module raises \<^verbatim>\<open>ValueError\<close> when either is falsy
  (\<^verbatim>\<open>None\<close> or the empty string). The six tools are defined by the \<^verbatim>\<open>def\<close> statements
  that follow, so the second component lists the tool names bound when execution of
  these statements ends.
\<close>

type_synonym environ = "string \<rightharpoonup> string"

record config =
  DEFAULT_PROJECT_ID :: string
  DEFAULT_DATASET_ID :: string

definition os_getenv :: "environ \<Rightarrow> string \<Rightarrow> string option" where
  "os_getenv env k = env k"

text \<open>Truth value of \<^verbatim>\<open>not x\<close> for an optional string.\<close>

definition not_str :: "string option \<Rightarrow> bool" where
  "not_str x \<longleftrightarrow> (case x of None \<Rightarrow> True | Some s \<Rightarrow> s = [])"

definition tool_names :: "string list" where
  "tool_names =
     [''list_dataset_tables'', ''get_bigquery_table_schema'', ''run_bigquery_sql_query'',
      ''insert_bigquery_rows'', ''update_bigquery_records'', ''delete_bigquery_records'']"

definition load_module :: "(environ \<Rightarrow> environ) \<Rightarrow> environ \<Rightarrow> (pyexn + config) \<times> string list" where
  "load_module load_dotenv env0 =
     (let env = load_dotenv env0;
          project = os_getenv env ''DEFAULT_PROJECT_ID'';
          dataset = os_getenv env ''DEFAULT_DATASET_ID''
      in if not_str project \<or> not_str dataset
         then (Inl (PyExn ValueError
                 ''DEFAULT_PROJECT_ID and DEFAULT_DATASET_ID must be set in the .env file or environment.''),
               [])
         else (Inr \<lparr>DEFAULT_PROJECT_ID = the project, DEFAULT_DATASET_ID = the dataset\<rparr>,
               tool_names))"

section \<open>The warehouse client and the standard output\<close>

text \<open>
  The client library is not part of the repository. Each call the tools make is a field
  of the record \<open>warehouse\<close>: given the arguments of the call it says whether the call
  raises or what it returns.
  \<^item> \<open>Client\<close> is \<^verbatim>\<open>bigquery.Client(project=...)\<close>: \<open>Some e\<close> when the constructor raises
    \<open>e\<close>, \<open>None\<close> when it returns a client.
  \<^item> \<open>list_tables\<close> is \<^verbatim>\<open>client.list_tables(client.dataset(D))\<close> with the iteration over
    its result.
  \<^item> \<open>get_table\<close> is \<^verbatim>\<open>client.get_table(client.dataset(D).table(table_id))\<close>; what it
    returns is the \<^verbatim>\<open>schema\<close> of the table.
  \<^item> \<open>query\<close> is \<^verbatim>\<open>client.query(sql, job_config)\<close>. The job it returns holds the
    outcome of \<^verbatim>\<open>result()\<close> (the rows, each as its \<^verbatim>\<open>items()\<close>), the messages of its
    \<^verbatim>\<open>errors\<close> and its \<^verbatim>\<open>num_dml_affected_rows\<close>.
  \<^item> \<open>insert_rows_json\<close> returns the per-row errors, each with its \<^verbatim>\<open>index\<close> and the
    text of its \<^verbatim>\<open>errors\<close> list.
  \<^item> \<open>stdout_write\<close> is \<^verbatim>\<open>print(line)\<close> on the standard output of the process:
    \<open>Some e\<close> when writing the line raises \<open>e\<close> (a text the stream cannot encode, a
    closed stream), \<open>None\<close> when the line is written.
  Every call a tool makes is also appended to a log of events, in order, together with
  the lines the tool prints. A call that raises is logged as well.
\<close>

datatype query_param = ScalarQueryParameter string string pyval

type_synonym pydict = "(string \<times> pyval) list"

record table_item =
  table_id :: string

record schema_field =
  name :: string
  field_type :: string
  mode :: string

record query_job =
  result :: "pyexn + pydict list"
  errors :: "string list"
  num_dml_affected_rows :: "int option"

record insert_error =
  index :: nat
  errors_repr :: string

record warehouse =
  Client :: "string \<Rightarrow> pyexn option"
  list_tables :: "string \<Rightarrow> string \<Rightarrow> pyexn + table_item list"
  get_table :: "string \<Rightarrow> string \<Rightarrow> string \<Rightarrow> pyexn + schema_field list"
  query :: "string \<Rightarrow> query_param list \<Rightarrow> pyexn + query_job"
  insert_rows_json :: "string \<Rightarrow> string \<Rightarrow> string \<Rightarrow> pydict list \<Rightarrow> pyexn + insert_error list"
  stdout_write :: "string \<Rightarrow> pyexn option"

datatype event =
    NewClient string
  | ListTables string string
  | GetTable string string string
  | Query string "query_param list"
  | InsertRowsJson string string string "pydict list"
  | Print string

text \<open>
  \<^verbatim>\<open>try: body except Exception as e: handler\<close>. An exception whose class does not derive
  from \<^verbatim>\<open>Exception\<close> is not caught. The handler runs outside the \<^verbatim>\<open>try\<close>: what it
  raises leaves the function.
\<close>

definition try_except ::
  "(pyexn + 'a) \<times> event list \<Rightarrow> (pyexn \<Rightarrow> (pyexn + 'a) \<times> event list)
     \<Rightarrow> (pyexn + 'a) \<times> event list" where
  "try_except body handler =
     (case body of
        (Inr v, evs) \<Rightarrow> (Inr v, evs)
      | (Inl e, evs) \<Rightarrow>
          if is_Exception (exn_cls e)
          then (fst (handler e), evs @ snd (handler e))
          else (Inl e, evs))"

text \<open>
  \<^verbatim>\<open>print(line)\<close> followed by \<^verbatim>\<open>return value\<close>, after the events \<open>evs\<close>: the line is
  logged, and the value is returned unless writing the line raises.
\<close>

definition print_then_return ::
  "warehouse \<Rightarrow> event list \<Rightarrow> string \<Rightarrow> 'a \<Rightarrow> (pyexn + 'a) \<times> event list" where
  "print_then_return wh evs line v =
     (case stdout_write wh line of
        Some e \<Rightarrow> (Inl e, evs @ [Print line])
      | None \<Rightarrow> (Inr v, evs @ [Print line]))"

text \<open>
  \<^verbatim>\<open>d[key] = value\<close> on a dictionary kept as its list of items in insertion order: an
  existing key keeps its position and takes the new value, a new key goes to the end.
\<close>

fun dict_setitem :: "pydict \<Rightarrow> string \<Rightarrow> pyval \<Rightarrow> pydict" where
  "dict_setitem [] k v = [(k, v)]"
| "dict_setitem ((k', v') # d) k v =
     (if k' = k then (k', v) # d else (k', v') # dict_setitem d k v)"

text \<open>
  The conversions to text are library methods (\<^verbatim>\<open>isoformat\<close> of the three
  \<^verbatim>\<open>datetime\<close> classes, \<^verbatim>\<open>str\<close> of a \<^verbatim>\<open>Decimal\<close>); they are parameters.
\<close>

record pylib =
  date_isoformat :: "py_date \<Rightarrow> string"
  datetime_isoformat :: "py_datetime \<Rightarrow> string"
  time_isoformat :: "py_time \<Rightarrow> string"
  decimal_str :: "py_decimal \<Rightarrow> string"

text \<open>\<^verbatim>\<open>value.isoformat()\<close>, dispatched on the runtime class of the receiver.\<close>

fun isoformat :: "pylib \<Rightarrow> pyval \<Rightarrow> string" where
  "isoformat lib (VDate d) = date_isoformat lib d"
| "isoformat lib (VDatetime d) = datetime_isoformat lib d"
| "isoformat lib (VTime t) = time_isoformat lib t"
| "isoformat lib _ = []"

text \<open>
  The code calls \<^verbatim>\<open>isoformat\<close> only under an \<^verbatim>\<open>isinstance\<close> test for one of the three
  classes, so the last equation is never reached.
\<close>

text \<open>\<^verbatim>\<open>str(value)\<close> where the code applies it, to a \<^verbatim>\<open>Decimal\<close>.\<close>

fun str_value :: "pylib \<Rightarrow> pyval \<Rightarrow> string" where
  "str_value lib (VDecimal n) = decimal_str lib n"
| "str_value lib _ = []"

section \<open>The read tools\<close>

text \<open>The lines the read tools print, as their f-strings build them.\<close>

definition list_empty_line :: "config \<Rightarrow> string" where
  "list_empty_line cfg =
     ''No tables found in dataset '' @ DEFAULT_PROJECT_ID cfg @ ''.'' @ DEFAULT_DATASET_ID cfg @ ''.''"

definition list_error_line :: "config \<Rightarrow> pyexn \<Rightarrow> string" where
  "list_error_line cfg e =
     ''Error listing tables for '' @ DEFAULT_PROJECT_ID cfg @ ''.'' @ DEFAULT_DATASET_ID cfg
     @ '': '' @ exn_str e"

definition schema_empty_line :: "config \<Rightarrow> string \<Rightarrow> string" where
  "schema_empty_line cfg tid =
     ''Schema not found or empty for table '' @ DEFAULT_PROJECT_ID cfg @ ''.''
     @ DEFAULT_DATASET_ID cfg @ ''.'' @ tid @ ''.''"

definition schema_error_line :: "config \<Rightarrow> string \<Rightarrow> pyexn \<Rightarrow> string" where
  "schema_error_line cfg tid e =
     ''Error getting schema for '' @ DEFAULT_PROJECT_ID cfg @ ''.'' @ DEFAULT_DATASET_ID cfg
     @ ''.'' @ tid @ '': '' @ exn_str e"

definition query_empty_line :: "string \<Rightarrow> string" where
  "query_empty_line q = ''Query returned no results: '' @ q"

definition query_error_line :: "string \<Rightarrow> pyexn \<Rightarrow> string" where
  "query_error_line q e =
     ''Error running query '' @ [CHR 0x27] @ q @ [CHR 0x27] @ '': '' @ exn_str e"

definition list_dataset_tables_body :: "config \<Rightarrow> warehouse \<Rightarrow> (pyexn + string list) \<times> event list" where
  "list_dataset_tables_body cfg wh =
     (let P = DEFAULT_PROJECT_ID cfg; D = DEFAULT_DATASET_ID cfg
      in case Client wh P of
           Some e \<Rightarrow> (Inl e, [NewClient P])
         | None \<Rightarrow>
            (case list_tables wh P D of
               Inl e \<Rightarrow> (Inl e, [NewClient P, ListTables P D])
             | Inr tables \<Rightarrow>
                (let table_ids = map table_id tables
                 in if table_ids = []
                    then print_then_return wh [NewClient P, ListTables P D]
                           (list_empty_line cfg) []
                    else (Inr table_ids, [NewClient P, ListTables P D]))))"

definition list_dataset_tables :: "config \<Rightarrow> warehouse \<Rightarrow> (pyexn + string list) \<times> event list" where
  "list_dataset_tables cfg wh =
     try_except (list_dataset_tables_body cfg wh)
       (\<lambda>e. print_then_return wh [] (list_error_line cfg e) [])"

definition schema_entry :: "schema_field \<Rightarrow> pydict" where
  "schema_entry field =
     [(''name'', VStr (name field)), (''type'', VStr (field_type field)), (''mode'', VStr (mode field))]"

definition get_bigquery_table_schema_body ::
  "config \<Rightarrow> warehouse \<Rightarrow> string \<Rightarrow> (pyexn + pydict list) \<times> event list" where
  "get_bigquery_table_schema_body cfg wh tid =
     (let P = DEFAULT_PROJECT_ID cfg; D = DEFAULT_DATASET_ID cfg
      in case Client wh P of
           Some e \<Rightarrow> (Inl e, [NewClient P])
         | None \<Rightarrow>
            (case get_table wh P D tid of
               Inl e \<Rightarrow> (Inl e, [NewClient P, GetTable P D tid])
             | Inr schema \<Rightarrow>
                (let schema_info = foldl (\<lambda>acc field. acc @ [schema_entry field]) [] schema
                 in if schema_info = []
                    then print_then_return wh [NewClient P, GetTable P D tid]
                           (schema_empty_line cfg tid) []
                    else (Inr schema_info, [NewClient P, GetTable P D tid]))))"

definition get_bigquery_table_schema ::
  "config \<Rightarrow> warehouse \<Rightarrow> string \<Rightarrow> (pyexn + pydict list) \<times> event list" where
  "get_bigquery_table_schema cfg wh tid =
     try_except (get_bigquery_table_schema_body cfg wh tid)
       (\<lambda>e. print_then_return wh [] (schema_error_line cfg tid e) [])"

text \<open>The inner loop of \<^verbatim>\<open>run_bigquery_sql_query\<close> over \<^verbatim>\<open>row.items()\<close>.\<close>

definition query_value :: "pylib \<Rightarrow> pyval \<Rightarrow> pyval" where
  "query_value lib v =
     (if isinstance v C_date \<or> isinstance v C_datetime then VStr (isoformat lib v)
      else if isinstance v C_Decimal then VStr (str_value lib v)
      else v)"

definition query_row :: "pylib \<Rightarrow> pydict \<Rightarrow> pydict" where
  "query_row lib row =
     foldl (\<lambda>processed_row (k, v). dict_setitem processed_row k (query_value lib v)) [] row"

definition run_bigquery_sql_query_body ::
  "config \<Rightarrow> pylib \<Rightarrow> warehouse \<Rightarrow> string \<Rightarrow> (pyexn + pydict list) \<times> event list" where
  "run_bigquery_sql_query_body cfg lib wh q =
     (let P = DEFAULT_PROJECT_ID cfg
      in case Client wh P of
           Some e \<Rightarrow> (Inl e, [NewClient P])
         | None \<Rightarrow>
            (case query wh q [] of
               Inl e \<Rightarrow> (Inl e, [NewClient P, Query q []])
             | Inr query_job \<Rightarrow>
                (case result query_job of
                   Inl e \<Rightarrow> (Inl e, [NewClient P, Query q []])
                 | Inr results \<Rightarrow>
                    (let processed_rows =
                           foldl (\<lambda>acc row. acc @ [query_row lib row]) [] results
                     in if processed_rows = []
                        then print_then_return wh [NewClient P, Query q []]
                               (query_empty_line q) []
                        else (Inr processed_rows, [NewClient P, Query q []])))))"

definition run_bigquery_sql_query ::
  "config \<Rightarrow> pylib \<Rightarrow> warehouse \<Rightarrow> string \<Rightarrow> (pyexn + pydict list) \<times> event list" where
  "run_bigquery_sql_query cfg lib wh q =
     try_except (run_bigquery_sql_query_body cfg lib wh q)
       (\<lambda>e. print_then_return wh [] (query_error_line q e) [])"

section \<open>The write tools\<close>

text \<open>The inner loop of \<^verbatim>\<open>insert_bigquery_rows\<close> over \<^verbatim>\<open>row.items()\<close>.\<close>

definition insert_value :: "pylib \<Rightarrow> pyval \<Rightarrow> pyval" where
  "insert_value lib v =
     (if isinstance v C_Decimal then VStr (str_value lib v)
      else if isinstance v C_date \<or> isinstance v C_datetime \<or> isinstance v C_time
      then VStr (isoformat lib v)
      else v)"

definition insert_row :: "pylib \<Rightarrow> pydict \<Rightarrow> pydict" where
  "insert_row lib row =
     foldl (\<lambda>processed_row (k, v). dict_setitem processed_row k (insert_value lib v)) [] row"

definition insert_bigquery_rows_body ::
  "config \<Rightarrow> pylib \<Rightarrow> warehouse \<Rightarrow> string \<Rightarrow> pydict list \<Rightarrow> (pyexn + string) \<times> event list" where
  "insert_bigquery_rows_body cfg lib wh tid rows =
     (let P = DEFAULT_PROJECT_ID cfg; D = DEFAULT_DATASET_ID cfg
      in case Client wh P of
           Some e \<Rightarrow> (Inl e, [NewClient P])
         | None \<Rightarrow>
            (let processed_rows_for_json =
                   foldl (\<lambda>acc row. acc @ [insert_row lib row]) [] rows;
                 evs = [NewClient P, InsertRowsJson P D tid processed_rows_for_json]
             in case insert_rows_json wh P D tid processed_rows_for_json of
                  Inl e \<Rightarrow> (Inl e, evs)
                | Inr errs \<Rightarrow>
                   if errs = []
                   then (Inr (''Successfully inserted '' @ str_nat (length rows)
                              @ '' rows into table '' @ tid @ ''.''), evs)
                   else
                    (let error_details =
                           foldl (\<lambda>acc error_entry. acc @
                                    [''Row index '' @ str_nat (index error_entry) @ '': ''
                                     @ errors_repr error_entry]) [] errs
                     in (Inr (''Error inserting rows into table '' @ tid @ '': ''
                              @ join ''; '' error_details), evs))))"

definition insert_bigquery_rows ::
  "config \<Rightarrow> pylib \<Rightarrow> warehouse \<Rightarrow> string \<Rightarrow> pydict list \<Rightarrow> (pyexn + string) \<times> event list" where
  "insert_bigquery_rows cfg lib wh tid rows =
     (if rows = [] then (Inr ''Error: 'rows' list cannot be empty.'', [])
      else try_except (insert_bigquery_rows_body cfg lib wh tid rows)
             (\<lambda>e. (Inr (''Error inserting rows into table '' @ tid @ '': '' @ exn_str e), [])))"

text \<open>The chain of \<^verbatim>\<open>isinstance\<close> tests of \<^verbatim>\<open>update_bigquery_records\<close>, in source order.\<close>

definition bq_type_of :: "pyval \<Rightarrow> string option" where
  "bq_type_of val =
     (if isinstance val C_str then Some ''STRING''
      else if isinstance val C_bytes then Some ''BYTES''
      else if isinstance val C_int then Some ''INT64''
      else if isinstance val C_float then Some ''FLOAT64''
      else if isinstance val C_bool then Some ''BOOL''
      else if isinstance val C_datetime then Some ''TIMESTAMP''
      else if isinstance val C_date then Some ''DATE''
      else if isinstance val C_time then Some ''TIME''
      else if isinstance val C_Decimal then Some ''NUMERIC''
      else None)"

definition unsupported_type_error :: "pyval \<Rightarrow> string \<Rightarrow> pyexn" where
  "unsupported_type_error val col =
     PyExn TypeError
       (''Unsupported data type '' @ [CHR 0x27] @ class_name (type_of val) @ [CHR 0x27]
        @ '' for column '' @ [CHR 0x27] @ col @ [CHR 0x27] @ ''. ''
        @ ''Supported types: str, bytes, int, float, bool, datetime.datetime, ''
        @ ''datetime.date, datetime.time, Decimal.'')"

text \<open>
  The loop over \<^verbatim>\<open>enumerate(set_values.items())\<close>: it appends one SET clause and one
  typed parameter per item, and raises at the first value with no warehouse type.
\<close>

fun set_loop ::
  "nat \<Rightarrow> pydict \<Rightarrow> string list \<Rightarrow> query_param list \<Rightarrow> pyexn + (string list \<times> query_param list)" where
  "set_loop idx [] set_clauses query_params = Inr (set_clauses, query_params)"
| "set_loop idx ((col, val) # items) set_clauses query_params =
     (let param_name = ''p_set_val_'' @ str_nat idx;
          set_clauses' = set_clauses @ [''`'' @ col @ ''` = @'' @ param_name]
      in case bq_type_of val of
           None \<Rightarrow> Inl (unsupported_type_error val col)
         | Some bq_type \<Rightarrow>
             set_loop (Suc idx) items set_clauses'
               (query_params @ [ScalarQueryParameter param_name bq_type val]))"

definition update_bigquery_records_body ::
  "config \<Rightarrow> warehouse \<Rightarrow> string \<Rightarrow> pydict \<Rightarrow> string \<Rightarrow> (pyexn + string) \<times> event list" where
  "update_bigquery_records_body cfg wh tid set_values where_clause =
     (let P = DEFAULT_PROJECT_ID cfg; D = DEFAULT_DATASET_ID cfg
      in case Client wh P of
           Some e \<Rightarrow> (Inl e, [NewClient P])
         | None \<Rightarrow>
            if set_values = []
            then (Inr ''Error: set_values dictionary cannot be empty.'', [NewClient P])
            else
             (case set_loop 0 set_values [] [] of
                Inl e \<Rightarrow> (Inl e, [NewClient P])
              | Inr (set_clauses, query_params) \<Rightarrow>
                 (let sql_set_clause = join '', '' set_clauses;
                      full_table_name = ''`'' @ P @ ''.'' @ D @ ''.'' @ tid @ ''`'';
                      q = ''UPDATE '' @ full_table_name @ '' SET '' @ sql_set_clause
                          @ '' WHERE '' @ where_clause;
                      evs = [NewClient P, Query q query_params]
                  in case query wh q query_params of
                       Inl e \<Rightarrow> (Inl e, evs)
                     | Inr query_job \<Rightarrow>
                        (case result query_job of
                           Inl e \<Rightarrow> (Inl e, evs)
                         | Inr _ \<Rightarrow>
                            if errors query_job \<noteq> []
                            then (Inr (''Error updating table '' @ tid @ '': ''
                                       @ join ''; '' (errors query_job)), evs)
                            else (Inr (''Successfully updated ''
                                       @ str_opt_int (num_dml_affected_rows query_job)
                                       @ '' rows in table '' @ tid @ ''.''), evs)))))"

definition update_bigquery_records ::
  "config \<Rightarrow> warehouse \<Rightarrow> string \<Rightarrow> pydict \<Rightarrow> string \<Rightarrow> (pyexn + string) \<times> event list" where
  "update_bigquery_records cfg wh tid set_values where_clause =
     try_except (update_bigquery_records_body cfg wh tid set_values where_clause)
       (\<lambda>e. (Inr (''Error updating table '' @ tid @ '': '' @ exn_str e), []))"

definition delete_bigquery_records_body ::
  "config \<Rightarrow> warehouse \<Rightarrow> string \<Rightarrow> string \<Rightarrow> (pyexn + string) \<times> event list" where
  "delete_bigquery_records_body cfg wh tid where_clause =
     (let P = DEFAULT_PROJECT_ID cfg; D = DEFAULT_DATASET_ID cfg
      in case Client wh P of
           Some e \<Rightarrow> (Inl e, [NewClient P])
         | None \<Rightarrow>
            (let full_table_name = ''`'' @ P @ ''.'' @ D @ ''.'' @ tid @ ''`'';
                 q = ''DELETE FROM '' @ full_table_name @ '' WHERE '' @ where_clause;
                 evs = [NewClient P, Query q []]
             in case query wh q [] of
                  Inl e \<Rightarrow> (Inl e, evs)
                | Inr query_job \<Rightarrow>
                   (case result query_job of
                      Inl e \<Rightarrow> (Inl e, evs)
                    | Inr _ \<Rightarrow>
                       if errors query_job \<noteq> []
                       then (Inr (''Error deleting from table '' @ tid @ '': ''
                                  @ join ''; '' (errors query_job)), evs)
                       else (Inr (''Successfully deleted ''
                                  @ str_opt_int (num_dml_affected_rows query_job)
                                  @ '' rows from table '' @ tid @ ''.''), evs))))"

definition delete_bigquery_records ::
  "config \<Rightarrow> warehouse \<Rightarrow> string \<Rightarrow> string \<Rightarrow> (pyexn + string) \<times> event list" where
  "delete_bigquery_records cfg wh tid where_clause =
     (if where_clause = [] \<or> strip where_clause = []
      then (Inr ''Error: where_clause cannot be empty. To delete all rows, explicitly provide a condition like '1=1' (use with extreme caution).'', [])
      else try_except (delete_bigquery_records_body cfg wh tid where_clause)
             (\<lambda>e. (Inr (''Error deleting from table '' @ tid @ '': '' @ exn_str e), [])))"

section \<open>Sample environments\<close>

text \<open>
  A configuration, a library and the environments on which the tools can be run: one
  where every call succeeds, one where the client cannot be constructed because no
  credentials are found, one where the query is interrupted from the keyboard, one
  where the client constructor exits the interpreter, one without credentials whose
  standard output is closed, and one whose dataset, table and query are empty.
\<close>

definition demo_cfg :: config where
  "demo_cfg = \<lparr>DEFAULT_PROJECT_ID = ''proj'', DEFAULT_DATASET_ID = ''ds''\<rparr>"

definition demo_lib :: pylib where
  "demo_lib =
     \<lparr>date_isoformat = (\<lambda>d. ''2024-01-02''),
      datetime_isoformat = (\<lambda>d. ''2024-01-02T03:04:05+00:00''),
      time_isoformat = (\<lambda>t. ''03:04:05''),
      decimal_str = (\<lambda>n. ''12.50'')\<rparr>"

definition demo_date :: py_date where
  "demo_date = \<lparr>year = 2024, month = 1, day = 2\<rparr>"

definition demo_time :: py_time where
  "demo_time = \<lparr>hour = 3, minute = 4, second = 5, microsecond = 0\<rparr>"

definition demo_datetime :: py_datetime where
  "demo_datetime = \<lparr>dt_date = demo_date, dt_time = demo_time, utcoffset = Some 0\<rparr>"

definition demo_decimal :: py_decimal where
  "demo_decimal = \<lparr>negative = False, coefficient = 1250, exponent = - 2\<rparr>"

definition demo_row :: pydict where
  "demo_row =
     [(''d'', VDate demo_date), (''ts'', VDatetime demo_datetime), (''n'', VDecimal demo_decimal),
      (''t'', VTime demo_time), (''i'', VInt 7)]"

definition demo_job :: query_job where
  "demo_job = \<lparr>result = Inr [demo_row], errors = [], num_dml_affected_rows = Some 1\<rparr>"

definition demo_warehouse :: warehouse where
  "demo_warehouse =
     \<lparr>Client = (\<lambda>project. None),
      list_tables = (\<lambda>project dataset. Inr [\<lparr>table_id = ''orders''\<rparr>]),
      get_table = (\<lambda>project dataset tid. Inr [\<lparr>name = ''id'', field_type = ''INT64'', mode = ''REQUIRED''\<rparr>]),
      query = (\<lambda>q params. Inr demo_job),
      insert_rows_json = (\<lambda>project dataset tid rows. Inr []),
      stdout_write = (\<lambda>line. None)\<rparr>"

definition no_credentials_warehouse :: warehouse where
  "no_credentials_warehouse =
     demo_warehouse
       \<lparr>Client := (\<lambda>project. Some (PyExn DefaultCredentialsError
                       ''Your default credentials were not found.''))\<rparr>"

definition interrupted_warehouse :: warehouse where
  "interrupted_warehouse =
     demo_warehouse\<lparr>query := (\<lambda>q params. Inl (PyExn KeyboardInterrupt []))\<rparr>"

definition exiting_warehouse :: warehouse where
  "exiting_warehouse =
     demo_warehouse\<lparr>Client := (\<lambda>project. Some (PyExn SystemExit ''1''))\<rparr>"

definition closed_stdout_warehouse :: warehouse where
  "closed_stdout_warehouse =
     no_credentials_warehouse
       \<lparr>stdout_write := (\<lambda>line. Some (PyExn ValueError ''I/O operation on closed file.''))\<rparr>"

definition empty_job :: query_job where
  "empty_job = \<lparr>result = Inr [], errors = [], num_dml_affected_rows = None\<rparr>"

definition empty_warehouse :: warehouse where
  "empty_warehouse =
     demo_warehouse
       \<lparr>list_tables := (\<lambda>project dataset. Inr []),
        get_table := (\<lambda>project dataset tid. Inr []),
        query := (\<lambda>q params. Inr empty_job)\<rparr>"

section \<open>Vocabulary of the specification\<close>

text \<open>The nine classes the specification lists as supported by the update tool.\<close>

definition supported_types :: "pyclass list" where
  "supported_types =
     [C_str, C_bytes, C_int, C_float, C_bool, C_datetime, C_date, C_time, C_Decimal]"

text \<open>
  The normalisation of a result field as the specification words it: a date or a
  datetime becomes its ISO text, a decimal its decimal text, anything else is kept.
\<close>

fun spec_json_value :: "pylib \<Rightarrow> pyval \<Rightarrow> pyval" where
  "spec_json_value lib (VDate d) = VStr (date_isoformat lib d)"
| "spec_json_value lib (VDatetime d) = VStr (datetime_isoformat lib d)"
| "spec_json_value lib (VDecimal n) = VStr (decimal_str lib n)"
| "spec_json_value lib v = v"

text \<open>
  What it means for the warehouse call under a read tool to raise \<open>e\<close>: the client
  constructor raises it, or the request does, or (for a query) waiting for the job does.
\<close>

definition list_call_raises :: "config \<Rightarrow> warehouse \<Rightarrow> pyexn \<Rightarrow> bool" where
  "list_call_raises cfg wh e \<longleftrightarrow>
     Client wh (DEFAULT_PROJECT_ID cfg) = Some e
     \<or> (Client wh (DEFAULT_PROJECT_ID cfg) = None
        \<and> list_tables wh (DEFAULT_PROJECT_ID cfg) (DEFAULT_DATASET_ID cfg) = Inl e)"

definition schema_call_raises :: "config \<Rightarrow> warehouse \<Rightarrow> string \<Rightarrow> pyexn \<Rightarrow> bool" where
  "schema_call_raises cfg wh tid e \<longleftrightarrow>
     Client wh (DEFAULT_PROJECT_ID cfg) = Some e
     \<or> (Client wh (DEFAULT_PROJECT_ID cfg) = None
        \<and> get_table wh (DEFAULT_PROJECT_ID cfg) (DEFAULT_DATASET_ID cfg) tid = Inl e)"

definition query_call_raises :: "config \<Rightarrow> warehouse \<Rightarrow> string \<Rightarrow> pyexn \<Rightarrow> bool" where
  "query_call_raises cfg wh q e \<longleftrightarrow>
     Client wh (DEFAULT_PROJECT_ID cfg) = Some e
     \<or> (Client wh (DEFAULT_PROJECT_ID cfg) = None
        \<and> (query wh q [] = Inl e
           \<or> (\<exists>job. query wh q [] = Inr job \<and> result job = Inl e)))"

section \<open>Auxiliary facts about the loops\<close>

lemma foldl_snoc_map: "foldl (\<lambda>acc x. acc @ [f x]) a xs = a @ map f xs"
  by (induction xs arbitrary: a) simp_all

lemma dict_setitem_fresh: "k \<notin> fst ` set d \<Longrightarrow> dict_setitem d k v = d @ [(k, v)]"
  by (induction d) auto

lemma foldl_setitem_distinct:
  "distinct (map fst row) \<Longrightarrow> fst ` set d \<inter> fst ` set row = {} \<Longrightarrow>
   foldl (\<lambda>acc (k, v). dict_setitem acc k (f v)) d row = d @ map (\<lambda>(k, v). (k, f v)) row"
proof (induction row arbitrary: d)
  case Nil
  then show ?case by simp
next
  case (Cons kv row)
  obtain k v where kv: "kv = (k, v)" by (cases kv)
  from Cons.prems kv have fresh: "k \<notin> fst ` set d" by auto
  from Cons.prems kv have "distinct (map fst row)" by simp
  moreover from Cons.prems kv have "fst ` set (d @ [(k, f v)]) \<inter> fst ` set row = {}"
    by auto
  ultimately have "foldl (\<lambda>acc (k, v). dict_setitem acc k (f v)) (d @ [(k, f v)]) row
      = (d @ [(k, f v)]) @ map (\<lambda>(k, v). (k, f v)) row"
    by (rule Cons.IH)
  with fresh kv show ?case by (simp add: dict_setitem_fresh)
qed

lemma query_row_distinct:
  "distinct (map fst row) \<Longrightarrow> query_row lib row = map (\<lambda>(k, v). (k, query_value lib v)) row"
  unfolding query_row_def using foldl_setitem_distinct [of row "[]" "query_value lib"] by simp

lemma insert_row_distinct:
  "distinct (map fst row) \<Longrightarrow> insert_row lib row = map (\<lambda>(k, v). (k, insert_value lib v)) row"
  unfolding insert_row_def using foldl_setitem_distinct [of row "[]" "insert_value lib"] by simp

lemma query_value_spec: "query_value lib v = spec_json_value lib v"
  by (cases v) (simp_all add: query_value_def isinstance_def issubclass_def)

lemma strip_Nil_iff: "strip s = [] \<longleftrightarrow> (\<forall>c\<in>set s. py_isspace c)"
proof
  assume "strip s = []"
  then have "\<forall>x\<in>set (dropWhile py_isspace s). py_isspace x"
    by (simp add: strip_def)
  then have "dropWhile py_isspace s = []"
    using hd_dropWhile [of py_isspace s] by (cases "dropWhile py_isspace s") auto
  then show "\<forall>c\<in>set s. py_isspace c" by simp
next
  assume "\<forall>c\<in>set s. py_isspace c"
  then show "strip s = []" by (auto simp: strip_def dest: set_dropWhileD)
qed

lemma bq_type_of_None_iff: "bq_type_of v = None \<longleftrightarrow> type_of v \<notin> set supported_types"
  by (cases v) (simp_all add: bq_type_of_def isinstance_def issubclass_def supported_types_def)

lemma set_loop_supported:
  "\<forall>(c, v)\<in>set items. bq_type_of v \<noteq> None \<Longrightarrow>
   set_loop idx items cl ps =
     Inr (cl @ map (\<lambda>(i, c, v). ''`'' @ c @ ''` = @p_set_val_'' @ str_nat i) (enumerate idx items),
          ps @ map (\<lambda>(i, c, v). ScalarQueryParameter (''p_set_val_'' @ str_nat i) (the (bq_type_of v)) v)
                 (enumerate idx items))"
  by (induction items arbitrary: idx cl ps) (auto simp: Let_def)

lemma set_loop_unsupported:
  "find (\<lambda>(c, v). bq_type_of v = None) items = Some (col, val) \<Longrightarrow>
   set_loop idx items cl ps = Inl (unsupported_type_error val col)"
  by (induction items arbitrary: idx cl ps) (auto simp: Let_def split: if_splits)

lemma clauses_cols:
  "map (\<lambda>(i, c, v). f i c) (enumerate idx items) = map (\<lambda>(i, c). f i c) (enumerate idx (map fst items))"
  by (induction items arbitrary: idx) auto

lemma bq_type_of_classes:
  "bq_type_of (VStr s) = Some ''STRING''"
  "bq_type_of (VBytes b) = Some ''BYTES''"
  "bq_type_of (VInt i) = Some ''INT64''"
  "bq_type_of (VFloat x) = Some ''FLOAT64''"
  "bq_type_of (VBool p) = Some ''INT64''"
  "bq_type_of (VDatetime dt) = Some ''TIMESTAMP''"
  "bq_type_of (VDate d) = Some ''DATE''"
  "bq_type_of (VTime t) = Some ''TIME''"
  "bq_type_of (VDecimal n) = Some ''NUMERIC''"
  by (simp_all add: bq_type_of_def isinstance_def issubclass_def)

section \<open>Auxiliary facts about the tools\<close>

lemma try_except_snd_silent:
  "snd (try_except (r, evs) (\<lambda>e. (Inr (h e), []))) = evs"
  by (cases r) (simp_all add: try_except_def)

lemma update_body_events:
  assumes "Client wh (DEFAULT_PROJECT_ID cfg) = None"
      and "set_values \<noteq> []"
      and "set_loop 0 set_values [] [] = Inr (set_clauses, query_params)"
  shows "snd (update_bigquery_records_body cfg wh tid set_values where_clause) =
     [NewClient (DEFAULT_PROJECT_ID cfg),
      Query (''UPDATE `'' @ DEFAULT_PROJECT_ID cfg @ ''.'' @ DEFAULT_DATASET_ID cfg @ ''.'' @ tid
             @ ''` SET '' @ join '', '' set_clauses @ '' WHERE '' @ where_clause) query_params]"
  using assms
  by (simp add: update_bigquery_records_body_def Let_def split: sum.splits)

lemma update_empty_set_values_with_client:
  "Client wh (DEFAULT_PROJECT_ID cfg) = None \<Longrightarrow>
   update_bigquery_records cfg wh tid [] where_clause =
     (Inr ''Error: set_values dictionary cannot be empty.'', [NewClient (DEFAULT_PROJECT_ID cfg)])"
  by (simp add: update_bigquery_records_def update_bigquery_records_body_def try_except_def)

lemma map_of_mapped:
  "distinct (map fst row) \<Longrightarrow> (k, v) \<in> set row \<Longrightarrow>
   map_of (map (\<lambda>(k, v). (k, f v)) row) k = Some (f v)"
proof -
  assume d: "distinct (map fst row)" and m: "(k, v) \<in> set row"
  have e: "map fst (map (\<lambda>(k, v). (k, f v)) row) = map fst row"
    by (induction row) auto
  have "distinct (map fst (map (\<lambda>(k, v). (k, f v)) row))"
    unfolding e by (rule d)
  moreover from m have "(k, f v) \<in> set (map (\<lambda>(k, v). (k, f v)) row)" by force
  ultimately show ?thesis by (rule map_of_is_SomeI)
qed

lemma query_rows_distinct:
  "\<forall>row\<in>set rows. distinct (map fst row) \<Longrightarrow>
   foldl (\<lambda>acc row. acc @ [query_row lib row]) [] rows
     = map (map (\<lambda>(k, v). (k, spec_json_value lib v))) rows"
  by (simp add: foldl_snoc_map query_row_distinct query_value_spec)

lemma insert_rows_distinct:
  "\<forall>row\<in>set rows. distinct (map fst row) \<Longrightarrow>
   foldl (\<lambda>acc row. acc @ [insert_row lib row]) [] rows
     = map (map (\<lambda>(k, v). (k, insert_value lib v))) rows"
  by (simp add: foldl_snoc_map insert_row_distinct)

lemma run_query_success:
  assumes "Client wh (DEFAULT_PROJECT_ID cfg) = None"
      and "query wh q [] = Inr job"
      and "result job = Inr rows"
      and "\<forall>row\<in>set rows. distinct (map fst row)"
      and "rows \<noteq> [] \<or> stdout_write wh (query_empty_line q) = None"
  shows "fst (run_bigquery_sql_query cfg lib wh q)
           = Inr (map (map (\<lambda>(k, v). (k, spec_json_value lib v))) rows)"
  using assms
  by (auto simp: run_bigquery_sql_query_def run_bigquery_sql_query_body_def try_except_def
      print_then_return_def Let_def foldl_snoc_map query_row_distinct query_value_spec)

lemma spec_json_value_not_native:
  "type_of (spec_json_value lib v) \<notin> {C_date, C_datetime, C_Decimal}"
  by (cases v) simp_all

lemma list_tool_outcome:
  "list_call_raises cfg wh e \<Longrightarrow>
   fst (list_dataset_tables cfg wh) =
     (if is_Exception (exn_cls e)
      then (case stdout_write wh (list_error_line cfg e) of None \<Rightarrow> Inr [] | Some e' \<Rightarrow> Inl e')
      else Inl e)"
  by (auto simp: list_call_raises_def list_dataset_tables_def list_dataset_tables_body_def
      try_except_def print_then_return_def Let_def split: option.splits)

lemma schema_tool_outcome:
  "schema_call_raises cfg wh tid e \<Longrightarrow>
   fst (get_bigquery_table_schema cfg wh tid) =
     (if is_Exception (exn_cls e)
      then (case stdout_write wh (schema_error_line cfg tid e) of None \<Rightarrow> Inr [] | Some e' \<Rightarrow> Inl e')
      else Inl e)"
  by (auto simp: schema_call_raises_def get_bigquery_table_schema_def
      get_bigquery_table_schema_body_def try_except_def print_then_return_def Let_def
      split: option.splits)

lemma query_tool_outcome:
  "query_call_raises cfg wh q e \<Longrightarrow>
   fst (run_bigquery_sql_query cfg lib wh q) =
     (if is_Exception (exn_cls e)
      then (case stdout_write wh (query_error_line q e) of None \<Rightarrow> Inr [] | Some e' \<Rightarrow> Inl e')
      else Inl e)"
  by (auto simp: query_call_raises_def run_bigquery_sql_query_def
      run_bigquery_sql_query_body_def try_except_def print_then_return_def Let_def
      split: option.splits)

lemma read_tools_empty_result:
  assumes "Client wh (DEFAULT_PROJECT_ID cfg) = None"
  shows "list_tables wh (DEFAULT_PROJECT_ID cfg) (DEFAULT_DATASET_ID cfg) = Inr [] \<Longrightarrow>
         stdout_write wh (list_empty_line cfg) = None \<Longrightarrow>
           fst (list_dataset_tables cfg wh) = Inr []"
    and "get_table wh (DEFAULT_PROJECT_ID cfg) (DEFAULT_DATASET_ID cfg) tid = Inr [] \<Longrightarrow>
         stdout_write wh (schema_empty_line cfg tid) = None \<Longrightarrow>
           fst (get_bigquery_table_schema cfg wh tid) = Inr []"
    and "query wh q [] = Inr job \<Longrightarrow> result job = Inr [] \<Longrightarrow>
         stdout_write wh (query_empty_line q) = None \<Longrightarrow>
           fst (run_bigquery_sql_query cfg lib wh q) = Inr []"
  using assms
  by (simp_all add: list_dataset_tables_def list_dataset_tables_body_def
      get_bigquery_table_schema_def get_bigquery_table_schema_body_def
      run_bigquery_sql_query_def run_bigquery_sql_query_body_def try_except_def
      print_then_return_def Let_def)

lemma update_unsupported_first:
  assumes "Client wh (DEFAULT_PROJECT_ID cfg) = None"
      and "find (\<lambda>(col, val). type_of val \<notin> set supported_types) set_values = Some (col, val)"
  shows "update_bigquery_records_body cfg wh tid set_values where_clause =
           (Inl (unsupported_type_error val col), [NewClient (DEFAULT_PROJECT_ID cfg)])
       \<and> exn_cls (unsupported_type_error val col) = TypeError
       \<and> update_bigquery_records cfg wh tid set_values where_clause =
           (Inr (''Error updating table '' @ tid @ '': Unsupported data type ''
                 @ [CHR 0x27] @ class_name (type_of val) @ [CHR 0x27]
                 @ '' for column '' @ [CHR 0x27] @ col @ [CHR 0x27]
                 @ ''. Supported types: str, bytes, int, float, bool, datetime.datetime, datetime.date, datetime.time, Decimal.''),
            [NewClient (DEFAULT_PROJECT_ID cfg)])"
proof -
  from assms(2) have ne: "set_values \<noteq> []" by auto
  from assms(2) have "find (\<lambda>(c, v). bq_type_of v = None) set_values = Some (col, val)"
    by (simp add: bq_type_of_None_iff)
  then have loop: "set_loop 0 set_values [] [] = Inl (unsupported_type_error val col)"
    by (rule set_loop_unsupported)
  have body: "update_bigquery_records_body cfg wh tid set_values where_clause =
           (Inl (unsupported_type_error val col), [NewClient (DEFAULT_PROJECT_ID cfg)])"
    using assms(1) ne loop by (simp add: update_bigquery_records_body_def)
  have cls: "exn_cls (unsupported_type_error val col) = TypeError"
    by (simp add: unsupported_type_error_def)
  have "update_bigquery_records cfg wh tid set_values where_clause =
          (Inr (''Error updating table '' @ tid @ '': '' @ exn_str (unsupported_type_error val col)),
           [NewClient (DEFAULT_PROJECT_ID cfg)])"
    by (simp add: update_bigquery_records_def body try_except_def cls)
  with body cls show ?thesis by (simp add: unsupported_type_error_def)
qed

section \<open>The update tool\<close>

text \<open>
  Claim C1, as the code has it. Let some value of \<open>set_values\<close> have a runtime type
  outside the nine supported classes, and let the client be constructed. The loop
  raises \<^verbatim>\<open>TypeError\<close> at the first such item in iteration order, inside the
  \<^verbatim>\<open>try\<close> block, before the statement text is built. The handler
  \<^verbatim>\<open>except Exception\<close> of the same function catches it, so the tool returns the string
  \<^verbatim>\<open>Error updating table <table_id>: Unsupported data type ...\<close> and raises nothing.
  The log holds the construction of the client only: no query is issued.
\<close>

theorem update_unsupported_type_returns_error:
  assumes "Client wh (DEFAULT_PROJECT_ID cfg) = None"
      and "\<exists>(col, val)\<in>set set_values. type_of val \<notin> set supported_types"
  shows "\<exists>col val.
           find (\<lambda>(col, val). type_of val \<notin> set supported_types) set_values = Some (col, val)
         \<and> update_bigquery_records_body cfg wh tid set_values where_clause =
             (Inl (unsupported_type_error val col), [NewClient (DEFAULT_PROJECT_ID cfg)])
         \<and> exn_cls (unsupported_type_error val col) = TypeError
         \<and> update_bigquery_records cfg wh tid set_values where_clause =
             (Inr (''Error updating table '' @ tid @ '': Unsupported data type ''
                   @ [CHR 0x27] @ class_name (type_of val) @ [CHR 0x27]
                   @ '' for column '' @ [CHR 0x27] @ col @ [CHR 0x27]
                   @ ''. Supported types: str, bytes, int, float, bool, datetime.datetime, datetime.date, datetime.time, Decimal.''),
              [NewClient (DEFAULT_PROJECT_ID cfg)])"
proof -
  from assms(2)
  have "find (\<lambda>(col, val). type_of val \<notin> set supported_types) set_values \<noteq> None"
    by (auto simp: find_None_iff)
  then obtain col val
    where f: "find (\<lambda>(col, val). type_of val \<notin> set supported_types) set_values = Some (col, val)"
    by auto
  from update_unsupported_first [OF assms(1) f] f show ?thesis by blast
qed

theorem update_unsupported_type_returns_error_witness:
  "update_bigquery_records demo_cfg demo_warehouse ''orders''
       [(''status'', VStr ''done''), (''tags'', VList []), (''note'', VNone)] ''id = 1'' =
     (Inr ''Error updating table orders: Unsupported data type 'list' for column 'tags'. Supported types: str, bytes, int, float, bool, datetime.datetime, datetime.date, datetime.time, Decimal.'',
      [NewClient ''proj''])"
proof -
  have c: "Client demo_warehouse (DEFAULT_PROJECT_ID demo_cfg) = None"
    by (simp add: demo_warehouse_def)
  have u: "\<exists>(col, val)\<in>set [(''status'', VStr ''done''), (''tags'', VList []), (''note'', VNone)].
             type_of val \<notin> set supported_types"
    by (simp add: supported_types_def)
  show ?thesis
    using update_unsupported_type_returns_error [OF c u, of "''orders''" "''id = 1''"]
    by (auto simp: demo_cfg_def supported_types_def)
qed

text \<open>
  The wording "raises a \<^verbatim>\<open>TypeError\<close> that propagates uncaught" fails on the code: with
  the single value \<^verbatim>\<open>None\<close> the tool returns an error string.
\<close>

theorem update_unsupported_type_counterexample:
  "update_bigquery_records demo_cfg demo_warehouse ''orders'' [(''note'', VNone)] ''id = 1'' =
     (Inr ''Error updating table orders: Unsupported data type 'NoneType' for column 'note'. Supported types: str, bytes, int, float, bool, datetime.datetime, datetime.date, datetime.time, Decimal.'',
      [NewClient ''proj''])"
  by (simp add: update_bigquery_records_def update_bigquery_records_body_def try_except_def
      demo_cfg_def demo_warehouse_def bq_type_of_def isinstance_def issubclass_def
      unsupported_type_error_def)

text \<open>
  Claim C2 says that a \<^verbatim>\<open>bool\<close> value is bound with the declared type BOOL. In the
  code the test \<^verbatim>\<open>isinstance(val, int)\<close> comes before \<^verbatim>\<open>isinstance(val, bool)\<close>, and
  \<^verbatim>\<open>bool\<close> is a subclass of \<^verbatim>\<open>int\<close>, so the BOOL branch is never taken: the
  update of one column to \<^verbatim>\<open>True\<close> binds the parameter with the declared type INT64.
  The other eight classes are bound as the claim lists them (\<open>bq_type_of_classes\<close>).
\<close>

theorem update_bool_declared_int64:
  "update_bigquery_records demo_cfg demo_warehouse ''orders'' [(''active'', VBool True)] ''id = 1'' =
     (Inr ''Successfully updated 1 rows in table orders.'',
      [NewClient ''proj'',
       Query ''UPDATE `proj.ds.orders` SET `active` = @p_set_val_0 WHERE id = 1''
         [ScalarQueryParameter ''p_set_val_0'' ''INT64'' (VBool True)]])"
  by (simp add: update_bigquery_records_def update_bigquery_records_body_def try_except_def
      demo_cfg_def demo_warehouse_def demo_job_def bq_type_of_def isinstance_def issubclass_def
      str_nat.simps str_opt_int_def Let_def)

text \<open>
  Claim C3. For every table identifier, every non-empty \<open>set_values\<close> whose values all
  have supported types and every WHERE fragment, once the client is constructed the
  tool issues exactly one query. Its text is \<^verbatim>\<open>UPDATE\<close>, the qualified table in
  backticks, \<^verbatim>\<open>SET\<close>, one clause per column with the placeholder
  \<^verbatim>\<open>@p_set_val_<index>\<close>, joined by a comma and a space, \<^verbatim>\<open>WHERE\<close> and the fragment
  appended unchanged. The text is computed from the column names alone; each value
  appears only in the list of typed parameters, in the same order.
\<close>

theorem update_sql_text:
  assumes "Client wh (DEFAULT_PROJECT_ID cfg) = None"
      and "set_values \<noteq> []"
      and "\<forall>(col, val)\<in>set set_values. type_of val \<in> set supported_types"
  shows "snd (update_bigquery_records cfg wh tid set_values where_clause) =
     [NewClient (DEFAULT_PROJECT_ID cfg),
      Query (''UPDATE `'' @ DEFAULT_PROJECT_ID cfg @ ''.'' @ DEFAULT_DATASET_ID cfg @ ''.'' @ tid
             @ ''` SET ''
             @ join '', '' (map (\<lambda>(i, col). ''`'' @ col @ ''` = @p_set_val_'' @ str_nat i)
                              (enumerate 0 (map fst set_values)))
             @ '' WHERE '' @ where_clause)
        (map (\<lambda>(i, col, val).
                ScalarQueryParameter (''p_set_val_'' @ str_nat i) (the (bq_type_of val)) val)
           (enumerate 0 set_values))]"
proof -
  from assms(3) have "\<forall>(c, v)\<in>set set_values. bq_type_of v \<noteq> None"
    by (auto simp: bq_type_of_None_iff)
  then have loop: "set_loop 0 set_values [] [] =
     Inr (map (\<lambda>(i, c, v). ''`'' @ c @ ''` = @p_set_val_'' @ str_nat i) (enumerate 0 set_values),
          map (\<lambda>(i, c, v). ScalarQueryParameter (''p_set_val_'' @ str_nat i) (the (bq_type_of v)) v)
            (enumerate 0 set_values))"
    using set_loop_supported [of set_values 0 "[]" "[]"] by simp
  have cols: "map (\<lambda>(i, c, v). ''`'' @ c @ ''` = @p_set_val_'' @ str_nat i) (enumerate 0 set_values)
      = map (\<lambda>(i, col). ''`'' @ col @ ''` = @p_set_val_'' @ str_nat i) (enumerate 0 (map fst set_values))"
    by (rule clauses_cols)
  have "snd (update_bigquery_records cfg wh tid set_values where_clause)
      = snd (update_bigquery_records_body cfg wh tid set_values where_clause)"
    unfolding update_bigquery_records_def
    using try_except_snd_silent
      [of "fst (update_bigquery_records_body cfg wh tid set_values where_clause)"
          "snd (update_bigquery_records_body cfg wh tid set_values where_clause)"]
    by simp
  also have "\<dots> = [NewClient (DEFAULT_PROJECT_ID cfg),
      Query (''UPDATE `'' @ DEFAULT_PROJECT_ID cfg @ ''.'' @ DEFAULT_DATASET_ID cfg @ ''.'' @ tid
             @ ''` SET ''
             @ join '', '' (map (\<lambda>(i, c, v). ''`'' @ c @ ''` = @p_set_val_'' @ str_nat i)
                              (enumerate 0 set_values))
             @ '' WHERE '' @ where_clause)
        (map (\<lambda>(i, col, val).
                ScalarQueryParameter (''p_set_val_'' @ str_nat i) (the (bq_type_of val)) val)
           (enumerate 0 set_values))]"
    by (rule update_body_events [OF assms(1) assms(2) loop])
  finally show ?thesis by (simp only: cols)
qed

theorem update_sql_text_witness:
  "snd (update_bigquery_records demo_cfg demo_warehouse ''orders''
          [(''status'', VStr ''x' OR 1=1''), (''score'', VInt 100)] ''id = 'u1' AND n > 0'') =
     [NewClient ''proj'',
      Query ''UPDATE `proj.ds.orders` SET `status` = @p_set_val_0, `score` = @p_set_val_1 WHERE id = 'u1' AND n > 0''
        [ScalarQueryParameter ''p_set_val_0'' ''STRING'' (VStr ''x' OR 1=1''),
         ScalarQueryParameter ''p_set_val_1'' ''INT64'' (VInt 100)]]"
proof -
  have c: "Client demo_warehouse (DEFAULT_PROJECT_ID demo_cfg) = None"
    by (simp add: demo_warehouse_def)
  have n: "[(''status'', VStr ''x' OR 1=1''), (''score'', VInt 100)] \<noteq> []" by simp
  have s: "\<forall>(col, val)\<in>set [(''status'', VStr ''x' OR 1=1''), (''score'', VInt 100)].
             type_of val \<in> set supported_types"
    by (simp add: supported_types_def)
  show ?thesis
    using update_sql_text [OF c n s, of "''orders''" "''id = 'u1' AND n > 0''"]
    by (simp add: demo_cfg_def bq_type_of_def isinstance_def issubclass_def str_nat.simps
        enumerate_eq_zip upt_rec)
qed

text \<open>
  Claim C6 says that an empty \<open>set_values\<close> always yields the literal string
  \<^verbatim>\<open>Error: set_values dictionary cannot be empty.\<close> The code constructs the client
  first, inside the \<^verbatim>\<open>try\<close> block, and tests \<open>set_values\<close> afterwards. When the
  constructor raises (no credentials), the handler answers with the constructor's
  message instead. With a client the literal is returned
  (\<open>update_empty_set_values_with_client\<close>).
\<close>

theorem update_empty_set_values_without_credentials:
  "update_bigquery_records demo_cfg no_credentials_warehouse ''orders'' [] ''id = 1'' =
     (Inr ''Error updating table orders: Your default credentials were not found.'',
      [NewClient ''proj''])"
  by (simp add: update_bigquery_records_def update_bigquery_records_body_def try_except_def
      demo_cfg_def no_credentials_warehouse_def demo_warehouse_def)

section \<open>The read tools and the conversion of values\<close>

text \<open>
  Claim C4. When the query succeeds, every field of every result row that holds a
  \<^verbatim>\<open>date\<close> or a \<^verbatim>\<open>datetime\<close> is returned as the string \<^verbatim>\<open>isoformat()\<close> gives,
  every field that holds a \<^verbatim>\<open>Decimal\<close> as the string \<^verbatim>\<open>str\<close> gives, and every other
  field unchanged, in the same order. No field of the returned rows is a native date,
  datetime or Decimal. The keys of a row are distinct, as the keys of a mapping are.
  The result holds at least one row; for a result without rows the same equation holds
  when the line that reports it is written.
\<close>

theorem query_results_normalised:
  assumes "Client wh (DEFAULT_PROJECT_ID cfg) = None"
      and "query wh q [] = Inr job"
      and "result job = Inr rows"
      and "\<forall>row\<in>set rows. distinct (map fst row)"
      and "rows \<noteq> [] \<or> stdout_write wh (query_empty_line q) = None"
  shows "fst (run_bigquery_sql_query cfg lib wh q)
           = Inr (map (map (\<lambda>(k, v). (k, spec_json_value lib v))) rows)
       \<and> (\<forall>out. fst (run_bigquery_sql_query cfg lib wh q) = Inr out \<longrightarrow>
            (\<forall>row\<in>set out. \<forall>(k, v)\<in>set row. type_of v \<notin> {C_date, C_datetime, C_Decimal}))"
proof -
  have r: "fst (run_bigquery_sql_query cfg lib wh q)
           = Inr (map (map (\<lambda>(k, v). (k, spec_json_value lib v))) rows)"
    by (rule run_query_success [OF assms])
  have "\<forall>row\<in>set (map (map (\<lambda>(k, v). (k, spec_json_value lib v))) rows).
          \<forall>(k, v)\<in>set row. type_of v \<notin> {C_date, C_datetime, C_Decimal}"
    using spec_json_value_not_native by fastforce
  with r show ?thesis by simp
qed

theorem query_results_normalised_witness:
  "fst (run_bigquery_sql_query demo_cfg demo_lib demo_warehouse ''SELECT * FROM `proj.ds.orders`'') =
     Inr [[(''d'', VStr ''2024-01-02''), (''ts'', VStr ''2024-01-02T03:04:05+00:00''),
           (''n'', VStr ''12.50''), (''t'', VTime demo_time), (''i'', VInt 7)]]"
proof -
  have c: "Client demo_warehouse (DEFAULT_PROJECT_ID demo_cfg) = None"
    by (simp add: demo_warehouse_def)
  have q: "query demo_warehouse ''SELECT * FROM `proj.ds.orders`'' [] = Inr demo_job"
    by (simp add: demo_warehouse_def)
  have r: "result demo_job = Inr [demo_row]"
    by (simp add: demo_job_def)
  have d: "\<forall>row\<in>set [demo_row]. distinct (map fst row)"
    by (simp add: demo_row_def)
  have n: "[demo_row] \<noteq> []
             \<or> stdout_write demo_warehouse (query_empty_line ''SELECT * FROM `proj.ds.orders`'') = None"
    by simp
  show ?thesis
    using query_results_normalised [OF c q r d n, of demo_lib]
    by (simp add: demo_row_def demo_lib_def)
qed

text \<open>
  Claim C5, as the code has it. Let the warehouse call under one of the three read
  tools raise \<open>e\<close>. If \<open>e\<close> is an instance of \<^verbatim>\<open>Exception\<close>, the handler catches it and
  prints a line; when the line is written the tool returns the empty list, and when
  writing the line raises, that exception leaves the tool, because the handler runs
  outside the \<^verbatim>\<open>try\<close>. If \<open>e\<close> does not derive from \<^verbatim>\<open>Exception\<close>, it is not caught
  and leaves the tool. When the call succeeds with nothing to report and the line
  saying so is written, the tool returns the empty list as well, so an error that was
  caught cannot be told apart from an empty result.
\<close>

theorem read_tools_swallow_Exception:
  "(list_call_raises cfg wh e \<longrightarrow>
      (is_Exception (exn_cls e) \<and> stdout_write wh (list_error_line cfg e) = None
         \<longrightarrow> fst (list_dataset_tables cfg wh) = Inr [])
    \<and> (\<not> is_Exception (exn_cls e) \<longrightarrow> fst (list_dataset_tables cfg wh) = Inl e)
    \<and> (\<forall>e'. is_Exception (exn_cls e) \<and> stdout_write wh (list_error_line cfg e) = Some e'
         \<longrightarrow> fst (list_dataset_tables cfg wh) = Inl e'))
 \<and> (schema_call_raises cfg wh tid e \<longrightarrow>
      (is_Exception (exn_cls e) \<and> stdout_write wh (schema_error_line cfg tid e) = None
         \<longrightarrow> fst (get_bigquery_table_schema cfg wh tid) = Inr [])
    \<and> (\<not> is_Exception (exn_cls e) \<longrightarrow> fst (get_bigquery_table_schema cfg wh tid) = Inl e)
    \<and> (\<forall>e'. is_Exception (exn_cls e) \<and> stdout_write wh (schema_error_line cfg tid e) = Some e'
         \<longrightarrow> fst (get_bigquery_table_schema cfg wh tid) = Inl e'))
 \<and> (query_call_raises cfg wh q e \<longrightarrow>
      (is_Exception (exn_cls e) \<and> stdout_write wh (query_error_line q e) = None
         \<longrightarrow> fst (run_bigquery_sql_query cfg lib wh q) = Inr [])
    \<and> (\<not> is_Exception (exn_cls e) \<longrightarrow> fst (run_bigquery_sql_query cfg lib wh q) = Inl e)
    \<and> (\<forall>e'. is_Exception (exn_cls e) \<and> stdout_write wh (query_error_line q e) = Some e'
         \<longrightarrow> fst (run_bigquery_sql_query cfg lib wh q) = Inl e'))
 \<and> (Client wh (DEFAULT_PROJECT_ID cfg) = None \<longrightarrow>
      (list_tables wh (DEFAULT_PROJECT_ID cfg) (DEFAULT_DATASET_ID cfg) = Inr []
         \<and> stdout_write wh (list_empty_line cfg) = None
         \<longrightarrow> fst (list_dataset_tables cfg wh) = Inr [])
    \<and> (get_table wh (DEFAULT_PROJECT_ID cfg) (DEFAULT_DATASET_ID cfg) tid = Inr []
         \<and> stdout_write wh (schema_empty_line cfg tid) = None
         \<longrightarrow> fst (get_bigquery_table_schema cfg wh tid) = Inr [])
    \<and> (\<forall>job. query wh q [] = Inr job \<and> result job = Inr []
         \<and> stdout_write wh (query_empty_line q) = None
         \<longrightarrow> fst (run_bigquery_sql_query cfg lib wh q) = Inr []))"
proof -
  have l: "list_call_raises cfg wh e \<longrightarrow>
      (is_Exception (exn_cls e) \<and> stdout_write wh (list_error_line cfg e) = None
         \<longrightarrow> fst (list_dataset_tables cfg wh) = Inr [])
    \<and> (\<not> is_Exception (exn_cls e) \<longrightarrow> fst (list_dataset_tables cfg wh) = Inl e)
    \<and> (\<forall>e'. is_Exception (exn_cls e) \<and> stdout_write wh (list_error_line cfg e) = Some e'
         \<longrightarrow> fst (list_dataset_tables cfg wh) = Inl e')"
    using list_tool_outcome [of cfg wh e] by simp
  have s: "schema_call_raises cfg wh tid e \<longrightarrow>
      (is_Exception (exn_cls e) \<and> stdout_write wh (schema_error_line cfg tid e) = None
         \<longrightarrow> fst (get_bigquery_table_schema cfg wh tid) = Inr [])
    \<and> (\<not> is_Exception (exn_cls e) \<longrightarrow> fst (get_bigquery_table_schema cfg wh tid) = Inl e)
    \<and> (\<forall>e'. is_Exception (exn_cls e) \<and> stdout_write wh (schema_error_line cfg tid e) = Some e'
         \<longrightarrow> fst (get_bigquery_table_schema cfg wh tid) = Inl e')"
    using schema_tool_outcome [of cfg wh tid e] by simp
  have q: "query_call_raises cfg wh q e \<longrightarrow>
      (is_Exception (exn_cls e) \<and> stdout_write wh (query_error_line q e) = None
         \<longrightarrow> fst (run_bigquery_sql_query cfg lib wh q) = Inr [])
    \<and> (\<not> is_Exception (exn_cls e) \<longrightarrow> fst (run_bigquery_sql_query cfg lib wh q) = Inl e)
    \<and> (\<forall>e'. is_Exception (exn_cls e) \<and> stdout_write wh (query_error_line q e) = Some e'
         \<longrightarrow> fst (run_bigquery_sql_query cfg lib wh q) = Inl e')"
    using query_tool_outcome [of cfg wh q e lib] by simp
  have n: "Client wh (DEFAULT_PROJECT_ID cfg) = None \<longrightarrow>
      (list_tables wh (DEFAULT_PROJECT_ID cfg) (DEFAULT_DATASET_ID cfg) = Inr []
         \<and> stdout_write wh (list_empty_line cfg) = None
         \<longrightarrow> fst (list_dataset_tables cfg wh) = Inr [])
    \<and> (get_table wh (DEFAULT_PROJECT_ID cfg) (DEFAULT_DATASET_ID cfg) tid = Inr []
         \<and> stdout_write wh (schema_empty_line cfg tid) = None
         \<longrightarrow> fst (get_bigquery_table_schema cfg wh tid) = Inr [])
    \<and> (\<forall>job. query wh q [] = Inr job \<and> result job = Inr []
         \<and> stdout_write wh (query_empty_line q) = None
         \<longrightarrow> fst (run_bigquery_sql_query cfg lib wh q) = Inr [])"
    using read_tools_empty_result [of wh cfg] by blast
  from l s q n show ?thesis by (intro conjI)
qed

theorem read_tools_swallow_Exception_witness:
  "fst (list_dataset_tables demo_cfg no_credentials_warehouse) = Inr []
   \<and> fst (get_bigquery_table_schema demo_cfg no_credentials_warehouse ''orders'') = Inr []
   \<and> fst (run_bigquery_sql_query demo_cfg demo_lib no_credentials_warehouse ''SELECT 1'') = Inr []
   \<and> fst (list_dataset_tables demo_cfg exiting_warehouse) = Inl (PyExn SystemExit ''1'')
   \<and> fst (get_bigquery_table_schema demo_cfg exiting_warehouse ''orders'')
       = Inl (PyExn SystemExit ''1'')
   \<and> fst (run_bigquery_sql_query demo_cfg demo_lib exiting_warehouse ''SELECT 1'')
       = Inl (PyExn SystemExit ''1'')
   \<and> fst (list_dataset_tables demo_cfg closed_stdout_warehouse)
       = Inl (PyExn ValueError ''I/O operation on closed file.'')
   \<and> fst (get_bigquery_table_schema demo_cfg closed_stdout_warehouse ''orders'')
       = Inl (PyExn ValueError ''I/O operation on closed file.'')
   \<and> fst (run_bigquery_sql_query demo_cfg demo_lib closed_stdout_warehouse ''SELECT 1'')
       = Inl (PyExn ValueError ''I/O operation on closed file.'')
   \<and> fst (list_dataset_tables demo_cfg empty_warehouse) = Inr []
   \<and> fst (get_bigquery_table_schema demo_cfg empty_warehouse ''orders'') = Inr []
   \<and> fst (run_bigquery_sql_query demo_cfg demo_lib empty_warehouse ''SELECT 1'') = Inr []"
proof -
  let ?c = "PyExn DefaultCredentialsError ''Your default credentials were not found.''"
  let ?x = "PyExn SystemExit ''1''"
  note defs = list_call_raises_def schema_call_raises_def query_call_raises_def
    no_credentials_warehouse_def exiting_warehouse_def closed_stdout_warehouse_def
    empty_warehouse_def empty_job_def demo_warehouse_def
  have a: "fst (list_dataset_tables demo_cfg no_credentials_warehouse) = Inr []
   \<and> fst (get_bigquery_table_schema demo_cfg no_credentials_warehouse ''orders'') = Inr []
   \<and> fst (run_bigquery_sql_query demo_cfg demo_lib no_credentials_warehouse ''SELECT 1'') = Inr []"
    using read_tools_swallow_Exception
      [where cfg = demo_cfg and wh = no_credentials_warehouse and e = ?c
         and tid = "''orders''" and q = "''SELECT 1''" and lib = demo_lib]
    by (simp add: defs)
  have b: "fst (list_dataset_tables demo_cfg exiting_warehouse) = Inl ?x
   \<and> fst (get_bigquery_table_schema demo_cfg exiting_warehouse ''orders'') = Inl ?x
   \<and> fst (run_bigquery_sql_query demo_cfg demo_lib exiting_warehouse ''SELECT 1'') = Inl ?x"
    using read_tools_swallow_Exception
      [where cfg = demo_cfg and wh = exiting_warehouse and e = ?x
         and tid = "''orders''" and q = "''SELECT 1''" and lib = demo_lib]
    by (simp add: defs)
  have c: "fst (list_dataset_tables demo_cfg closed_stdout_warehouse)
       = Inl (PyExn ValueError ''I/O operation on closed file.'')
   \<and> fst (get_bigquery_table_schema demo_cfg closed_stdout_warehouse ''orders'')
       = Inl (PyExn ValueError ''I/O operation on closed file.'')
   \<and> fst (run_bigquery_sql_query demo_cfg demo_lib closed_stdout_warehouse ''SELECT 1'')
       = Inl (PyExn ValueError ''I/O operation on closed file.'')"
    using read_tools_swallow_Exception
      [where cfg = demo_cfg and wh = closed_stdout_warehouse and e = ?c
         and tid = "''orders''" and q = "''SELECT 1''" and lib = demo_lib]
    by (simp add: defs)
  have d: "fst (list_dataset_tables demo_cfg empty_warehouse) = Inr []
   \<and> fst (get_bigquery_table_schema demo_cfg empty_warehouse ''orders'') = Inr []
   \<and> fst (run_bigquery_sql_query demo_cfg demo_lib empty_warehouse ''SELECT 1'') = Inr []"
    using read_tools_swallow_Exception
      [where cfg = demo_cfg and wh = empty_warehouse and e = ?c
         and tid = "''orders''" and q = "''SELECT 1''" and lib = demo_lib]
    by (simp add: defs)
  from a b c d show ?thesis by simp
qed

text \<open>
  The wording "never propagates an exception" fails on the code: the handlers name
  \<^verbatim>\<open>Exception\<close>, and a \<^verbatim>\<open>KeyboardInterrupt\<close> raised while the query runs passes
  through \<^verbatim>\<open>run_bigquery_sql_query\<close>.
\<close>

theorem read_tool_interrupt_counterexample:
  "run_bigquery_sql_query demo_cfg demo_lib interrupted_warehouse ''SELECT 1'' =
     (Inl (PyExn KeyboardInterrupt []), [NewClient ''proj'', Query ''SELECT 1'' []])"
  by (simp add: run_bigquery_sql_query_def run_bigquery_sql_query_body_def try_except_def
      demo_cfg_def interrupted_warehouse_def demo_warehouse_def)

text \<open>
  Claim C9. Take a row field that holds a \<^verbatim>\<open>datetime.time\<close>. \<^verbatim>\<open>insert_bigquery_rows\<close>
  sends the row to the warehouse with that field replaced by its \<^verbatim>\<open>isoformat()\<close>
  string, whereas \<^verbatim>\<open>run_bigquery_sql_query\<close> returns the same field of a result row
  as the native time value.
\<close>

theorem time_values_asymmetry:
  assumes "Client wh (DEFAULT_PROJECT_ID cfg) = None"
      and "\<forall>row\<in>set rows. distinct (map fst row)"
      and "i < length rows"
      and "(k, VTime t) \<in> set (rows ! i)"
      and "query wh q [] = Inr job"
      and "result job = Inr rows"
  shows "(\<exists>sent. snd (insert_bigquery_rows cfg lib wh tid rows)
              = [NewClient (DEFAULT_PROJECT_ID cfg),
                 InsertRowsJson (DEFAULT_PROJECT_ID cfg) (DEFAULT_DATASET_ID cfg) tid sent]
            \<and> length sent = length rows
            \<and> map_of (sent ! i) k = Some (VStr (time_isoformat lib t)))
       \<and> (\<exists>out. fst (run_bigquery_sql_query cfg lib wh q) = Inr out
            \<and> length out = length rows
            \<and> map_of (out ! i) k = Some (VTime t))"
proof -
  from assms(3) have ne: "rows \<noteq> []" by auto
  from assms(2,3) have di: "distinct (map fst (rows ! i))" by simp
  let ?sent = "map (map (\<lambda>(k, v). (k, insert_value lib v))) rows"
  let ?out = "map (map (\<lambda>(k, v). (k, spec_json_value lib v))) rows"
  have "snd (insert_bigquery_rows cfg lib wh tid rows)
      = snd (insert_bigquery_rows_body cfg lib wh tid rows)"
    using ne try_except_snd_silent
      [of "fst (insert_bigquery_rows_body cfg lib wh tid rows)"
          "snd (insert_bigquery_rows_body cfg lib wh tid rows)"]
    by (simp add: insert_bigquery_rows_def)
  also have "\<dots> = [NewClient (DEFAULT_PROJECT_ID cfg),
                 InsertRowsJson (DEFAULT_PROJECT_ID cfg) (DEFAULT_DATASET_ID cfg) tid ?sent]"
    using assms(1)
    by (simp add: insert_bigquery_rows_body_def Let_def insert_rows_distinct [OF assms(2)]
        split: sum.splits)
  finally have ev: "snd (insert_bigquery_rows cfg lib wh tid rows)
      = [NewClient (DEFAULT_PROJECT_ID cfg),
         InsertRowsJson (DEFAULT_PROJECT_ID cfg) (DEFAULT_DATASET_ID cfg) tid ?sent]" .
  have "map_of (?sent ! i) k = Some (insert_value lib (VTime t))"
    using assms(3) map_of_mapped [OF di assms(4), of "insert_value lib"] by simp
  then have s: "map_of (?sent ! i) k = Some (VStr (time_isoformat lib t))"
    by (simp add: insert_value_def isinstance_def issubclass_def)
  have r: "fst (run_bigquery_sql_query cfg lib wh q) = Inr ?out"
    using ne by (intro run_query_success [OF assms(1) assms(5) assms(6) assms(2)]) simp
  have "map_of (?out ! i) k = Some (spec_json_value lib (VTime t))"
    using assms(3) map_of_mapped [OF di assms(4), of "spec_json_value lib"] by simp
  then have o: "map_of (?out ! i) k = Some (VTime t)" by simp
  from ev s have "\<exists>sent. snd (insert_bigquery_rows cfg lib wh tid rows)
              = [NewClient (DEFAULT_PROJECT_ID cfg),
                 InsertRowsJson (DEFAULT_PROJECT_ID cfg) (DEFAULT_DATASET_ID cfg) tid sent]
            \<and> length sent = length rows
            \<and> map_of (sent ! i) k = Some (VStr (time_isoformat lib t))"
    by (intro exI [of _ ?sent]) simp
  moreover from r o have "\<exists>out. fst (run_bigquery_sql_query cfg lib wh q) = Inr out
            \<and> length out = length rows
            \<and> map_of (out ! i) k = Some (VTime t)"
    by (intro exI [of _ ?out]) simp
  ultimately show ?thesis by simp
qed

theorem time_values_asymmetry_witness:
  "snd (insert_bigquery_rows demo_cfg demo_lib demo_warehouse ''orders'' [demo_row]) =
     [NewClient ''proj'',
      InsertRowsJson ''proj'' ''ds'' ''orders''
        [[(''d'', VStr ''2024-01-02''), (''ts'', VStr ''2024-01-02T03:04:05+00:00''),
          (''n'', VStr ''12.50''), (''t'', VStr ''03:04:05''), (''i'', VInt 7)]]]
   \<and> (\<exists>out. fst (run_bigquery_sql_query demo_cfg demo_lib demo_warehouse ''SELECT 1'') = Inr out
          \<and> length out = length [demo_row]
          \<and> map_of (out ! 0) ''t'' = Some (VTime demo_time))"
proof -
  have c: "Client demo_warehouse (DEFAULT_PROJECT_ID demo_cfg) = None"
    by (simp add: demo_warehouse_def)
  have d: "\<forall>row\<in>set [demo_row]. distinct (map fst row)"
    by (simp add: demo_row_def)
  have i: "0 < length [demo_row]" by simp
  have m: "(''t'', VTime demo_time) \<in> set ([demo_row] ! 0)"
    by (simp add: demo_row_def)
  have q: "query demo_warehouse ''SELECT 1'' [] = Inr demo_job"
    by (simp add: demo_warehouse_def)
  have r: "result demo_job = Inr [demo_row]"
    by (simp add: demo_job_def)
  have a: "snd (insert_bigquery_rows demo_cfg demo_lib demo_warehouse ''orders'' [demo_row]) =
     [NewClient ''proj'',
      InsertRowsJson ''proj'' ''ds'' ''orders''
        [[(''d'', VStr ''2024-01-02''), (''ts'', VStr ''2024-01-02T03:04:05+00:00''),
          (''n'', VStr ''12.50''), (''t'', VStr ''03:04:05''), (''i'', VInt 7)]]]"
    by (simp add: insert_bigquery_rows_def insert_bigquery_rows_body_def try_except_def Let_def
        demo_cfg_def demo_warehouse_def demo_row_def demo_lib_def insert_row_def insert_value_def
        isinstance_def issubclass_def)
  from time_values_asymmetry [OF c d i m q r, of demo_lib "''orders''"] a
  show ?thesis by simp
qed

section \<open>Argument checks of the insert and delete tools\<close>

text \<open>
  Claim C7. For every table identifier, \<^verbatim>\<open>insert_bigquery_rows\<close> with an empty list of
  rows returns the literal error string, and its log is empty: no client is created and
  no request is made.
\<close>

theorem insert_empty_rows_refused:
  "insert_bigquery_rows cfg lib wh tid [] = (Inr ''Error: 'rows' list cannot be empty.'', [])"
  by (simp add: insert_bigquery_rows_def)

text \<open>
  Claim C8. For every table identifier, \<^verbatim>\<open>delete_bigquery_records\<close> with a WHERE
  clause that is empty or made of whitespace only returns the literal refusal string,
  and its log is empty: no client is created and no request is made.
\<close>

theorem delete_blank_where_refused:
  assumes "\<forall>c\<in>set where_clause. py_isspace c"
  shows "delete_bigquery_records cfg wh tid where_clause =
     (Inr ''Error: where_clause cannot be empty. To delete all rows, explicitly provide a condition like '1=1' (use with extreme caution).'', [])"
  using assms by (simp add: delete_bigquery_records_def strip_Nil_iff)

theorem delete_blank_where_refused_witness:
  "delete_bigquery_records demo_cfg demo_warehouse ''orders'' [CHR '' '', CHR 0x09, CHR 0x0A] =
     (Inr ''Error: where_clause cannot be empty. To delete all rows, explicitly provide a condition like '1=1' (use with extreme caution).'', [])"
proof -
  have h: "\<forall>c\<in>set [CHR '' '', CHR 0x09, CHR 0x0A]. py_isspace c"
    by (simp add: py_isspace_def)
  show ?thesis
    using delete_blank_where_refused [OF h, of demo_cfg demo_warehouse "''orders''"] by simp
qed

section \<open>Module load\<close>

text \<open>
  Claim C10. Let \<open>env\<close> be the environment that \<^verbatim>\<open>os.getenv\<close> reads, that is the
  process environment after \<^verbatim>\<open>load_dotenv()\<close>. If the project identifier or the dataset
  identifier is unset or empty in it, loading the module raises \<^verbatim>\<open>ValueError\<close> and no
  tool name is bound. Whenever the load yields a configuration, both identifiers are
  the non-empty values of the environment, so no tool runs with a missing identifier.
\<close>

theorem module_load_requires_identifiers:
  assumes "env = load_dotenv env0"
  shows "(env ''DEFAULT_PROJECT_ID'' = None \<or> env ''DEFAULT_PROJECT_ID'' = Some []
          \<or> env ''DEFAULT_DATASET_ID'' = None \<or> env ''DEFAULT_DATASET_ID'' = Some []
          \<longrightarrow> load_module load_dotenv env0 =
               (Inl (PyExn ValueError
                  ''DEFAULT_PROJECT_ID and DEFAULT_DATASET_ID must be set in the .env file or environment.''),
                []))
       \<and> (\<forall>cfg tools. load_module load_dotenv env0 = (Inr cfg, tools) \<longrightarrow>
             env ''DEFAULT_PROJECT_ID'' = Some (DEFAULT_PROJECT_ID cfg) \<and> DEFAULT_PROJECT_ID cfg \<noteq> []
             \<and> env ''DEFAULT_DATASET_ID'' = Some (DEFAULT_DATASET_ID cfg) \<and> DEFAULT_DATASET_ID cfg \<noteq> [])"
  using assms
  by (auto simp: load_module_def Let_def os_getenv_def not_str_def split: option.splits if_splits)

theorem module_load_requires_identifiers_witness:
  "load_module (\<lambda>e. e) [''DEFAULT_PROJECT_ID'' \<mapsto> ''proj''] =
     (Inl (PyExn ValueError
        ''DEFAULT_PROJECT_ID and DEFAULT_DATASET_ID must be set in the .env file or environment.''), [])
   \<and> load_module (\<lambda>e. e) [''DEFAULT_PROJECT_ID'' \<mapsto> ''proj'', ''DEFAULT_DATASET_ID'' \<mapsto> ''ds''] =
       (Inr demo_cfg, tool_names)"
proof -
  have a: "load_module (\<lambda>e. e) [''DEFAULT_PROJECT_ID'' \<mapsto> ''proj''] =
     (Inl (PyExn ValueError
        ''DEFAULT_PROJECT_ID and DEFAULT_DATASET_ID must be set in the .env file or environment.''), [])"
    using module_load_requires_identifiers
      [of "[''DEFAULT_PROJECT_ID'' \<mapsto> ''proj'']" "\<lambda>e. e" "[''DEFAULT_PROJECT_ID'' \<mapsto> ''proj'']"]
    by simp
  have b: "load_module (\<lambda>e. e) [''DEFAULT_PROJECT_ID'' \<mapsto> ''proj'', ''DEFAULT_DATASET_ID'' \<mapsto> ''ds''] =
       (Inr demo_cfg, tool_names)"
    by (simp add: load_module_def os_getenv_def not_str_def demo_cfg_def)
  from a b show ?thesis by simp
qed

end
